theory Spec2Isabelle
  imports Complex_Main
begin

section \<open>Configuration constants (namespace Config::Weights)\<close>

text \<open>
  The C++ type \<open>double\<close> is modelled by \<^typ>\<open>real\<close>: rounding, infinities and NaN are
  outside the model. The fields of type \<open>int\<close> only ever hold small constants and are
  modelled by \<^typ>\<open>int\<close>.
\<close>

definition OVERALL_CORE :: real where "OVERALL_CORE = 0.40"
definition OVERALL_CODING :: real where "OVERALL_CODING = 0.20"
definition OVERALL_CREATIVE :: real where "OVERALL_CREATIVE = 0.15"
definition OVERALL_CONFIDENCE :: real where "OVERALL_CONFIDENCE = 0.15"
definition OVERALL_PRICE :: real where "OVERALL_PRICE = 0.10"

definition CONFIDENCE_BASE :: real where "CONFIDENCE_BASE = 50"
definition CONFIDENCE_SIGNAL_BONUS :: real where "CONFIDENCE_SIGNAL_BONUS = 10"
definition CONFIDENCE_RECENCY_BONUS :: real where "CONFIDENCE_RECENCY_BONUS = 5"
definition CONFIDENCE_VERSATILE_BONUS :: real where "CONFIDENCE_VERSATILE_BONUS = 10"
definition CONFIDENCE_VARIANCE_PENALTY :: real where "CONFIDENCE_VARIANCE_PENALTY = 50"

definition TIE_THRESHOLD :: real where "TIE_THRESHOLD = 0.005"

text \<open>\<open>std::clamp(v, lo, hi)\<close>.\<close>

definition clamp :: "real \<Rightarrow> real \<Rightarrow> real \<Rightarrow> real" where
  "clamp v lo hi = (if v < lo then lo else if hi < v then hi else v)"

section \<open>Domain entities\<close>

datatype Modality = Text | Image | Video

record PerformanceMetrics =
  reasoning_score :: real
  coding_score :: real
  creative_score :: real
  context_window :: real
  price_input_1m :: real
  tokens_per_sec :: real
  is_open_source :: bool
  is_enterprise_ready :: bool
  last_updated_days_ago :: int
  org_maturity :: real
  uptime_sla :: real
  recency_bonus :: int

text \<open>
  The fields \<open>value\<close> and \<open>image\<close> of \<open>struct RankScores\<close> are written \<open>value_rank\<close> and
  \<open>image_rank\<close>: the first is a keyword of Isabelle, the second a constant of HOL.
\<close>

record RankScores =
  overall :: real
  value_rank :: real
  coding :: real
  image_rank :: real
  video :: real
  speed :: real
  confidence :: real
  enterprise :: real

record Signal =
  source :: string
  score :: real
  weight :: real

record ModelEntity =
  name :: string
  organization :: string
  modalities :: "Modality set"
  metrics :: PerformanceMetrics
  ranks :: RankScores
  signals :: "Signal list"
  final_score :: real
  confidence_score :: real
  confidence_reason :: string

text \<open>The default member initialisers of \<open>PerformanceMetrics\<close> and \<open>RankScores\<close>.\<close>

definition PerformanceMetrics_init :: PerformanceMetrics where
  "PerformanceMetrics_init =
     \<lparr>reasoning_score = 0, coding_score = 0, creative_score = 0, context_window = 0,
      price_input_1m = 0, tokens_per_sec = 0, is_open_source = False,
      is_enterprise_ready = False, last_updated_days_ago = 0, org_maturity = 0,
      uptime_sla = 0, recency_bonus = 0\<rparr>"

definition RankScores_init :: RankScores where
  "RankScores_init =
     \<lparr>overall = 0, value_rank = 0, coding = 0, image_rank = 0, video = 0, speed = 0,
      confidence = 0, enterprise = 0\<rparr>"

text \<open>The constructor \<open>ModelEntity(std::string n, std::string o)\<close>.\<close>

definition ModelEntity_new :: "string \<Rightarrow> string \<Rightarrow> ModelEntity" where
  "ModelEntity_new n org =
     \<lparr>name = n, organization = org, modalities = {}, metrics = PerformanceMetrics_init,
      ranks = RankScores_init, signals = [], final_score = 0, confidence_score = 0,
      confidence_reason = []\<rparr>"

section \<open>Signal evidence\<close>

definition AddSignal :: "ModelEntity \<Rightarrow> string \<Rightarrow> real \<Rightarrow> real \<Rightarrow> ModelEntity" where
  "AddSignal m src sc w =
     (if sc > 0
      then m\<lparr>signals := signals m @ [\<lparr>source = src, score = clamp sc 0 1, weight = w\<rparr>]\<rparr>
      else m)"

text \<open>
  The loop of \<open>ComputeAggregates\<close> over the signals, carrying \<open>weighted_sum\<close> and
  \<open>total_weight\<close>.
\<close>

fun aggregate_loop :: "Signal list \<Rightarrow> real \<Rightarrow> real \<Rightarrow> real \<times> real" where
  "aggregate_loop [] weighted_sum total_weight = (weighted_sum, total_weight)"
| "aggregate_loop (s # ss) weighted_sum total_weight =
     aggregate_loop ss (weighted_sum + score s * weight s) (total_weight + weight s)"

definition recency_tier :: "int \<Rightarrow> int" where
  "recency_tier days =
     (if days \<le> 30 then 3 else if days \<le> 90 then 2 else if days \<le> 180 then 1 else 0)"

text \<open>\<open>ModelEntity::ComputeAggregates\<close>; the console log is not modelled.\<close>

definition ComputeAggregates :: "ModelEntity \<Rightarrow> ModelEntity" where
  "ComputeAggregates m =
     (let m1 =
        (if signals m \<noteq> []
         then (case aggregate_loop (signals m) 0 0 of
                 (weighted_sum, total_weight) \<Rightarrow>
                   m\<lparr>final_score :=
                       (if total_weight > 0 then weighted_sum / total_weight else 0)\<rparr>)
         else m\<lparr>final_score := 0, confidence_reason := ''No Verified Signals''\<rparr>)
      in m1\<lparr>metrics :=
             (metrics m1)\<lparr>recency_bonus := recency_tier (last_updated_days_ago (metrics m1))\<rparr>\<rparr>)"

text \<open>
  A sequence of calls of \<open>AddSignal\<close>, one for each raw observation (source, raw score,
  weight), in order.
\<close>

fun AddSignals :: "ModelEntity \<Rightarrow> (string \<times> real \<times> real) list \<Rightarrow> ModelEntity" where
  "AddSignals m [] = m"
| "AddSignals m ((src, sc, w) # rs) = AddSignals (AddSignal m src sc w) rs"

text \<open>The invariant of the retained signals: a score in (0,1] and a positive weight.\<close>

definition valid_signal :: "Signal \<Rightarrow> bool" where
  "valid_signal s = (0 < score s \<and> score s \<le> 1 \<and> 0 < weight s)"

section \<open>Confidence and rankings\<close>

text \<open>
  \<open>std::inner_product(first1, last1, first2, init, op1, op2)\<close>: the accumulator is
  replaced by \<open>op1(acc, op2(x, y))\<close> for each pair in turn.
\<close>

fun inner_product ::
  "real list \<Rightarrow> real list \<Rightarrow> real \<Rightarrow> (real \<Rightarrow> real \<Rightarrow> real) \<Rightarrow> (real \<Rightarrow> real \<Rightarrow> real) \<Rightarrow> real" where
  "inner_product (x # xs) (y # ys) init op1 op2 = inner_product xs ys (op1 init (op2 x y)) op1 op2"
| "inner_product _ _ init op1 op2 = init"

text \<open>
  \<open>ModelEntity::ComputeRankings\<close>. Where the source divides by zero (a price of -10) the
  model has HOL's \<open>x / 0 = 0\<close>; no theorem below depends on that case.
\<close>

definition ComputeRankings :: "ModelEntity \<Rightarrow> ModelEntity" where
  "ComputeRankings m =
     (let conf_factor = confidence_score m / 100;
          price_factor = 1 / (1 + price_input_1m (metrics m) / 10);
          r = ranks m;
          r = r\<lparr>overall :=
                (final_score m * OVERALL_CORE
                 + coding_score (metrics m) * OVERALL_CODING
                 + creative_score (metrics m) * OVERALL_CREATIVE
                 + conf_factor * OVERALL_CONFIDENCE
                 + price_factor * OVERALL_PRICE) * 100\<rparr>;
          r = (if price_input_1m (metrics m) \<le> 0
               then r\<lparr>value_rank := final_score m * 1000\<rparr>
               else (let log_price = log 10 (price_input_1m (metrics m) + 1)
                     in r\<lparr>value_rank := (final_score m * final_score m) / (log_price + 0.1)\<rparr>));
          ctx_norm = clamp (context_window (metrics m) / 200000) 0 1;
          r = r\<lparr>coding :=
                (coding_score (metrics m) * 0.6
                 + reasoning_score (metrics m) * 0.2
                 + ctx_norm * 0.1
                 + conf_factor * 0.1) * 100\<rparr>;
          speed_norm = clamp (tokens_per_sec (metrics m) / 150) 0 1;
          r = r\<lparr>image_rank :=
                (final_score m * 0.5 + creative_score (metrics m) * 0.3
                 + speed_norm * 0.1 + conf_factor * 0.1) * 100\<rparr>;
          r = (if Image \<notin> modalities m then r\<lparr>image_rank := 0\<rparr> else r);
          r = r\<lparr>video :=
                (final_score m * 0.5 + creative_score (metrics m) * 0.3
                 + conf_factor * 0.1 + speed_norm * 0.1) * 100\<rparr>;
          r = (if Video \<notin> modalities m then r\<lparr>video := video r * 0.3\<rparr> else r);
          speed_base = clamp (tokens_per_sec (metrics m) / 200) 0 1;
          r = r\<lparr>speed := (speed_base * 0.7 + conf_factor * 0.2 + price_factor * 0.1) * 100\<rparr>;
          r = r\<lparr>confidence := confidence_score m\<rparr>;
          r = r\<lparr>enterprise :=
                (conf_factor * 0.4 + uptime_sla (metrics m) * 0.3
                 + org_maturity (metrics m) * 0.3) * 100\<rparr>
      in m\<lparr>ranks := r\<rparr>)"

text \<open>
  \<open>ModelEntity::RecalculateConfidence\<close>, in two parts: the body up to the call of
  \<open>ComputeRankings\<close>, and that call. The console log is not modelled. The local
  \<open>variance\<close> of the source holds a standard deviation.
\<close>

definition confidence_update :: "ModelEntity \<Rightarrow> ModelEntity" where
  "confidence_update m0 =
     (let m = m0\<lparr>confidence_reason := []\<rparr>
      in
        (if signals m \<noteq> []
         then
           (let conf = CONFIDENCE_BASE;
                conf = conf + real (length (signals m)) * CONFIDENCE_SIGNAL_BONUS;
                reason = confidence_reason m;
                days = last_updated_days_ago (metrics m);
                (conf, reason) =
                  (if days \<le> 30
                   then (conf + CONFIDENCE_RECENCY_BONUS, reason @ ''Recent Verification, '')
                   else if days \<le> 90 then (conf + CONFIDENCE_RECENCY_BONUS * 0.5, reason)
                   else (conf, reason));
                is_versatile =
                  ((coding_score (metrics m) > 0.75 \<and> creative_score (metrics m) > 0.75)
                   \<or> card (modalities m) > 1);
                (conf, reason) =
                  (if is_versatile
                   then (conf + CONFIDENCE_VERSATILE_BONUS, reason @ ''Multi-Category Verified, '')
                   else (conf, reason));
                conf =
                  (if final_score m > 0.85 then conf + 15
                   else if final_score m > 0.75 then conf + 10
                   else if final_score m > 0.65 then conf + 5
                   else if final_score m < 0.40 then conf - 10
                   else conf);
                scores = map score (signals m);
                mean = final_score m;
                sq_sum = inner_product scores scores 0 (+) (\<lambda>x y. (x - mean) * (y - mean));
                variance =
                  (if length scores > 1 then sqrt (sq_sum / real (length scores)) else 0);
                conf = conf - variance * CONFIDENCE_VARIANCE_PENALTY;
                conf = (if is_enterprise_ready (metrics m) then conf + 5 else conf);
                reason = (if length (signals m) \<ge> 3 then reason @ ''High Consensus'' else reason)
            in m\<lparr>confidence_reason := reason, confidence_score := clamp conf 10 99\<rparr>)
         else m\<lparr>confidence_score := 10\<rparr>))"

definition RecalculateConfidence :: "ModelEntity \<Rightarrow> ModelEntity" where
  "RecalculateConfidence m = ComputeRankings (confidence_update m)"

text \<open>
  The population standard deviation of a list of scores around a given mean, as the
  specification words the dispersion penalty.
\<close>

definition population_sd :: "real list \<Rightarrow> real \<Rightarrow> real" where
  "population_sd xs mean = sqrt ((\<Sum>x\<leftarrow>xs. (x - mean)\<^sup>2) / real (length xs))"

text \<open>The parts of the running total of \<open>RecalculateConfidence\<close>, in closed form.\<close>

definition recency_part :: "int \<Rightarrow> real" where
  "recency_part days = (if days \<le> 30 then 5 else if days \<le> 90 then 2.5 else 0)"

definition versatile_part :: "ModelEntity \<Rightarrow> real" where
  "versatile_part m =
     (if (coding_score (metrics m) > 0.75 \<and> creative_score (metrics m) > 0.75)
         \<or> card (modalities m) > 1 then 10 else 0)"

definition quality_part :: "real \<Rightarrow> real" where
  "quality_part s =
     (if s > 0.85 then 15 else if s > 0.75 then 10 else if s > 0.65 then 5
      else if s < 0.40 then - 10 else 0)"

definition dispersion :: "ModelEntity \<Rightarrow> real" where
  "dispersion m =
     (if length (signals m) > 1
      then population_sd (map score (signals m)) (final_score m) else 0)"

definition confidence_total :: "ModelEntity \<Rightarrow> real" where
  "confidence_total m =
     50 + 10 * real (length (signals m))
     + recency_part (last_updated_days_ago (metrics m))
     + versatile_part m + quality_part (final_score m)
     - 50 * dispersion m
     + (if is_enterprise_ready (metrics m) then 5 else 0)"

section \<open>Raw records\<close>

text \<open>
  The values of the JSON library (\<open>nlohmann::json\<close>, a third-party header): an object
  has unique keys, so the first binding of a key in the list is the one looked up.
\<close>

datatype json =
  JNull
| JBool bool
| JNumber real
| JString string
| JArray "json list"
| JObject "(string \<times> json) list"

text \<open>
  \<open>j.contains(key)\<close> followed by \<open>j[key]\<close>: \<open>None\<close> when \<open>j\<close> is not an object or has no
  such key.
\<close>

definition json_find :: "json \<Rightarrow> string \<Rightarrow> json option" where
  "json_find j key = (case j of JObject kvs \<Rightarrow> map_of kvs key | _ \<Rightarrow> None)"

text \<open>The two exception classes caught in the loop of \<open>IntelligenceEngine::Run\<close>.\<close>

datatype exn = JsonException | StdException

text \<open>
  \<open>Utils::TryGetDouble\<close>. The parser \<open>std::stod\<close> is a parameter: \<open>None\<close> stands for the
  exception it throws, which the function catches.
\<close>

definition TryGetDouble :: "(string \<Rightarrow> real option) \<Rightarrow> json \<Rightarrow> string \<Rightarrow> real option" where
  "TryGetDouble stod j key =
     (case json_find j key of
        None \<Rightarrow> None
      | Some JNull \<Rightarrow> None
      | Some (JNumber x) \<Rightarrow> Some x
      | Some (JString str) \<Rightarrow> stod str
      | Some _ \<Rightarrow> None)"

text \<open>\<open>Utils::ToLower\<close>: \<open>::tolower\<close> on every character, in the C locale.\<close>

definition tolower :: "char \<Rightarrow> char" where
  "tolower c =
     (let k = (of_char c :: nat) in if 65 \<le> k \<and> k \<le> 90 then char_of (k + 32) else c)"

definition ToLower :: "string \<Rightarrow> string" where
  "ToLower str = map tolower str"

text \<open>\<open>n.find(p) != std::string::npos\<close>.\<close>

fun starts_with :: "string \<Rightarrow> string \<Rightarrow> bool" where
  "starts_with _ [] = True"
| "starts_with [] (_ # _) = False"
| "starts_with (c # cs) (d # ds) = (c = d \<and> starts_with cs ds)"

fun str_find :: "string \<Rightarrow> string \<Rightarrow> bool" where
  "str_find [] p = (p = [])"
| "str_find (c # cs) p = (starts_with (c # cs) p \<or> str_find cs p)"

section \<open>Knowledge base\<close>

text \<open>
  The loop over \<open>rawItem["modalities"]\<close>: \<open>mod.get<std::string>()\<close> throws a
  \<open>json::type_error\<close> on an element that is not a string.
\<close>

fun insert_modalities :: "Modality set \<Rightarrow> json list \<Rightarrow> exn + Modality set" where
  "insert_modalities ms [] = Inr ms"
| "insert_modalities ms (JString s # mods) =
     (let modStr = ToLower s
      in insert_modalities
           (if modStr = ''image'' \<or> modStr = ''vision'' then insert Image ms
            else if modStr = ''video'' then insert Video ms
            else if modStr = ''text'' then insert Text ms
            else ms) mods)"
| "insert_modalities ms (_ # mods) = Inl JsonException"

text \<open>The fallback of the modality detection, on the lower-cased name.\<close>

definition name_modalities :: "Modality set \<Rightarrow> string \<Rightarrow> Modality set" where
  "name_modalities ms n =
     (if str_find n ''midjourney'' \<or> str_find n ''stable diffusion''
         \<or> str_find n ''dall-e'' \<or> str_find n ''imagen''
      then insert Text (insert Image ms)
      else if str_find n ''sora'' \<or> str_find n ''runway''
         \<or> str_find n ''gen-2'' \<or> str_find n ''gen-3''
         \<or> str_find n ''pika'' \<or> str_find n ''animatediff''
         \<or> str_find n ''stable video'' \<or> str_find n ''kling''
         \<or> str_find n ''video generation''
      then insert Text (insert Video ms)
      else if str_find n ''gpt-4'' \<or> str_find n ''gpt-5''
         \<or> str_find n ''claude 3'' \<or> str_find n ''claude 4''
         \<or> str_find n ''gemini''
         \<or> (str_find n ''qwen'' \<and> str_find n ''vl'')
         \<or> str_find n ''llama 3.2 11b'' \<or> str_find n ''llama 3.2 90b''
         \<or> (str_find n ''grok''
              \<and> (str_find n ''-2'' \<or> str_find n ''-3'' \<or> str_find n ''-4''))
         \<or> str_find n ''pixtral'' \<or> str_find n ''qvq''
         \<or> str_find n ''vision'' \<or> str_find n ''-vl''
         \<or> str_find n ''diffusion''
      then insert Text (insert Image ms)
      else insert Text ms)"

text \<open>
  \<open>KnowledgeBase::Enrich\<close>, in two parts. The first is the modality detection: the API
  data when the item has an array of modalities, the name otherwise.
\<close>

definition Enrich_modalities :: "ModelEntity \<Rightarrow> json \<Rightarrow> exn + Modality set" where
  "Enrich_modalities m rawItem =
     (case json_find rawItem ''modalities'' of
        Some (JArray mods) \<Rightarrow> insert_modalities (modalities m) mods
      | _ \<Rightarrow> Inr (name_modalities (modalities m) (ToLower (name m))))"

text \<open>
  The second part writes the fields of \<open>metrics\<close> other than \<open>recency_bonus\<close>, in the
  order of the source; \<open>ms\<close> is the modality set after the first part.
\<close>

definition Enrich_metrics ::
  "(string \<Rightarrow> real option) \<Rightarrow> ModelEntity \<Rightarrow> Modality set \<Rightarrow> json \<Rightarrow> PerformanceMetrics" where
  "Enrich_metrics stod m ms rawItem =
     (let n = ToLower (name m);
          org = ToLower (organization m);
          mt = metrics m;
          mt = mt\<lparr>price_input_1m :=
            (case TryGetDouble stod rawItem ''input_price'' of
               Some raw_price \<Rightarrow>
                 (if raw_price < 1 \<and> raw_price > 0 then raw_price * 1000000
                  else raw_price)
             | None \<Rightarrow>
                 (if str_find n ''gpt-4'' then 10
                  else if str_find n ''flash'' then 0.25
                  else 0))\<rparr>;
          mt = mt\<lparr>is_open_source :=
            (str_find n ''llama'' \<or> str_find n ''mistral''
             \<or> str_find n ''qwen'' \<or> str_find n ''falcon'')\<rparr>;
          mt = mt\<lparr>is_enterprise_ready :=
            (org = ''openai'' \<or> org = ''anthropic'' \<or> org = ''google''
             \<or> org = ''microsoft'')\<rparr>;
          mt = (if is_enterprise_ready mt
                then mt\<lparr>org_maturity := 0.95, uptime_sla := 0.99\<rparr>
                else mt\<lparr>org_maturity := 0.5, uptime_sla := 0.8\<rparr>);
          mt = mt\<lparr>coding_score :=
            (case TryGetDouble stod rawItem ''coding_score'' of
               Some x \<Rightarrow> x
             | None \<Rightarrow>
                (case TryGetDouble stod rawItem ''humaneval'' of
                   Some x \<Rightarrow> x
                 | None \<Rightarrow>
                     (if str_find n ''code'' then final_score m * 1.05
                      else final_score m * 0.85)))\<rparr>;
          mt = mt\<lparr>reasoning_score := final_score m\<rparr>;
          mt = mt\<lparr>creative_score :=
            (case TryGetDouble stod rawItem ''creative_score'' of
               Some x \<Rightarrow> min 1 x
             | None \<Rightarrow>
                 (if Image \<in> ms \<or> Video \<in> ms then min 1 (final_score m * 1.1)
                  else if str_find n ''gpt-4'' \<or> str_find n ''claude''
                          \<or> str_find n ''gemini''
                  then min 1 (final_score m * 0.95)
                  else min 1 (final_score m * 0.80)))\<rparr>;
          mt = mt\<lparr>context_window :=
            (case TryGetDouble stod rawItem ''context_length'' of
               Some ctx_len_double \<Rightarrow> min 1 (ctx_len_double / 200000)
             | None \<Rightarrow>
                 (if str_find n ''128k'' \<or> str_find n ''200k'' then 0.8 else 0.5))\<rparr>;
          mt = mt\<lparr>tokens_per_sec :=
            (case TryGetDouble stod rawItem ''throughput'' of
               Some throughput \<Rightarrow> throughput
             | None \<Rightarrow>
                (case TryGetDouble stod rawItem ''tokens_per_second'' of
                   Some throughput \<Rightarrow> throughput
                 | None \<Rightarrow>
                     (if str_find n ''turbo'' then 120
                      else if str_find n ''flash'' then 150
                      else if str_find n ''mini'' then 100
                      else 50)))\<rparr>;
          mt = mt\<lparr>last_updated_days_ago :=
            (if json_find rawItem ''release_date'' \<notin> {None, Some JNull} then 90
             else if json_find rawItem ''updated_at'' \<notin> {None, Some JNull} then 60
             else if str_find n ''2025'' then 15
             else if str_find n ''2024'' then 90
             else if str_find n ''2023'' then 365
             else 180)\<rparr>
      in mt)"

definition Enrich :: "(string \<Rightarrow> real option) \<Rightarrow> ModelEntity \<Rightarrow> json \<Rightarrow> exn + ModelEntity" where
  "Enrich stod m rawItem =
     (case Enrich_modalities m rawItem of
        Inl e \<Rightarrow> Inl e
      | Inr ms \<Rightarrow> Inr (m\<lparr>modalities := ms, metrics := Enrich_metrics stod m ms rawItem\<rparr>))"

section \<open>Ingestion\<close>

record RunState =
  registry :: "ModelEntity list"
  processed :: nat
  skipped :: nat

text \<open>
  \<open>item.value("organization", "Unknown")\<close>: the default when the key is absent, the
  string when it is one, and a \<open>json::type_error\<close> for any other value.
\<close>

definition item_organization :: "json \<Rightarrow> exn + string" where
  "item_organization item =
     (case json_find item ''organization'' of
        None \<Rightarrow> Inr ''Unknown''
      | Some (JString s) \<Rightarrow> Inr s
      | Some _ \<Rightarrow> Inl JsonException)"

text \<open>The two \<open>AddSignal\<close> calls of the loop body.\<close>

definition ingest_signals :: "(string \<Rightarrow> real option) \<Rightarrow> ModelEntity \<Rightarrow> json \<Rightarrow> ModelEntity" where
  "ingest_signals stod m item =
     (case TryGetDouble stod item ''gpqa_score'' of
        Some sc \<Rightarrow>
          (if sc \<ge> 0 \<and> sc \<le> 1 then AddSignal m ''ZeroEval GPQA'' sc 0.50 else m)
      | None \<Rightarrow>
          (case TryGetDouble stod item ''average_score'' of
             Some sc \<Rightarrow>
               (if sc \<ge> 0 \<and> sc \<le> 1 then AddSignal m ''Avg Score'' sc 0.40 else m)
           | None \<Rightarrow> m))"

text \<open>
  The loop body from the construction of the record to the confidence recalculation
  (stages 3 to 5), for an item whose name passed the checks.
\<close>

definition process_item :: "(string \<Rightarrow> real option) \<Rightarrow> string \<Rightarrow> json \<Rightarrow> exn + ModelEntity" where
  "process_item stod nm item =
     (case item_organization item of
        Inl e \<Rightarrow> Inl e
      | Inr org \<Rightarrow>
          (let m = ModelEntity_new nm org;
               m = ingest_signals stod m item;
               m = ComputeAggregates m
           in case Enrich stod m item of
                Inl e \<Rightarrow> Inl e
              | Inr m \<Rightarrow> Inr (RecalculateConfidence m)))"

text \<open>One iteration of the loop of \<open>IntelligenceEngine::Run\<close> over the parsed array.\<close>

definition Run_item :: "(string \<Rightarrow> real option) \<Rightarrow> RunState \<Rightarrow> json \<Rightarrow> RunState" where
  "Run_item stod st item =
     (case json_find item ''name'' of
        Some (JString nm) \<Rightarrow>
          (if nm = [] then st\<lparr>skipped := skipped st + 1\<rparr>
           else if list_ex (\<lambda>r. name r = nm) (registry st) then st
           else (case process_item stod nm item of
                   Inl e \<Rightarrow> st\<lparr>skipped := skipped st + 1\<rparr>
                 | Inr m \<Rightarrow>
                     (if final_score m > 0
                      then st\<lparr>registry := registry st @ [m], processed := processed st + 1\<rparr>
                      else st)))
      | _ \<Rightarrow> st\<lparr>skipped := skipped st + 1\<rparr>)"

fun Run_loop :: "(string \<Rightarrow> real option) \<Rightarrow> RunState \<Rightarrow> json list \<Rightarrow> RunState" where
  "Run_loop stod st [] = st"
| "Run_loop stod st (item # items) = Run_loop stod (Run_item stod st item) items"

text \<open>
  \<open>IntelligenceEngine::Run\<close> from the parsed payload on: the engine starts with an empty
  registry, and a payload that is not an array ends the run at once.
\<close>

definition Run :: "(string \<Rightarrow> real option) \<Rightarrow> json \<Rightarrow> RunState" where
  "Run stod data =
     (case data of
        JArray items \<Rightarrow> Run_loop stod \<lparr>registry = [], processed = 0, skipped = 0\<rparr> items
      | _ \<Rightarrow> \<lparr>registry = [], processed = 0, skipped = 0\<rparr>)"

section \<open>Ordering at export\<close>

text \<open>The comparator \<open>tieBreakerSort\<close> of \<open>DataExporter::ExportCSV\<close>.\<close>

definition tieBreakerSort_CSV :: "ModelEntity \<Rightarrow> ModelEntity \<Rightarrow> real \<Rightarrow> real \<Rightarrow> bool" where
  "tieBreakerSort_CSV a b scoreA scoreB =
     (let diff = \<bar>scoreA - scoreB\<bar>
      in if diff \<le> TIE_THRESHOLD then recency_bonus (metrics a) > recency_bonus (metrics b)
         else scoreA > scoreB)"

text \<open>The comparator \<open>tieBreakerSort\<close> of \<open>DataExporter::ExportLegacyText\<close>.\<close>

definition tieBreakerSort_LegacyText :: "ModelEntity \<Rightarrow> ModelEntity \<Rightarrow> real \<Rightarrow> real \<Rightarrow> bool" where
  "tieBreakerSort_LegacyText a b scoreA scoreB =
     (let diff = \<bar>scoreA - scoreB\<bar>
      in if diff \<le> TIE_THRESHOLD * 100 then recency_bonus (metrics a) > recency_bonus (metrics b)
         else scoreA > scoreB)"

text \<open>
  The comparators handed to \<open>std::sort\<close>: \<open>True\<close> when \<open>a\<close> is to come before \<open>b\<close>.
\<close>

definition ExportCSV_performance_less :: "ModelEntity \<Rightarrow> ModelEntity \<Rightarrow> bool" where
  "ExportCSV_performance_less a b = tieBreakerSort_CSV a b (overall (ranks a)) (overall (ranks b))"

definition ExportCSV_value_less :: "ModelEntity \<Rightarrow> ModelEntity \<Rightarrow> bool" where
  "ExportCSV_value_less a b = tieBreakerSort_CSV a b (value_rank (ranks a)) (value_rank (ranks b))"

definition ExportLegacyText_less :: "ModelEntity \<Rightarrow> ModelEntity \<Rightarrow> bool" where
  "ExportLegacyText_less a b =
     tieBreakerSort_LegacyText a b (overall (ranks a) * 100) (overall (ranks b) * 100)"

text \<open>
  The dashboard's comparator in \<open>renderCurrentView\<close>, for the default sort mode, on the
  rank that \<open>ToJSON\<close> exports for the view (clamped to [0,100]) and the exported
  \<open>recency_bonus\<close>. A negative result puts \<open>a\<close> first, a positive one \<open>b\<close>, and 0 leaves
  the two in the order they had.
\<close>

definition dashboard_compare :: "(RankScores \<Rightarrow> real) \<Rightarrow> ModelEntity \<Rightarrow> ModelEntity \<Rightarrow> real" where
  "dashboard_compare rankKey a b =
     (let scoreA = clamp (rankKey (ranks a)) 0 100;
          scoreB = clamp (rankKey (ranks b)) 0 100
      in if \<bar>scoreA - scoreB\<bar> \<le> 0.5
         then real_of_int (recency_bonus (metrics b) - recency_bonus (metrics a))
         else scoreB - scoreA)"

section \<open>Example records\<close>

definition example_spread :: ModelEntity where
  "example_spread =
     ComputeAggregates (AddSignals (ModelEntity_new ''a'' ''o'') [(''A'', 0.9, 0.5), (''B'', 0.7, 0.5)])"

definition example_tight :: ModelEntity where
  "example_tight =
     ComputeAggregates (AddSignals (ModelEntity_new ''b'' ''o'') [(''A'', 0.8, 0.5), (''B'', 0.8, 0.5)])"

definition example_free :: ModelEntity where
  "example_free = (ModelEntity_new ''free'' ''o'')\<lparr>final_score := 0.6\<rparr>"

definition example_priced :: ModelEntity where
  "example_priced =
     (ModelEntity_new ''priced'' ''o'')
       \<lparr>final_score := 1, metrics := PerformanceMetrics_init\<lparr>price_input_1m := 9\<rparr>\<rparr>"

definition example_state :: RunState where
  "example_state = \<lparr>registry = [example_free], processed = 1, skipped = 0\<rparr>"

definition item_scored :: json where
  "item_scored = JObject [(''name'', JString ''m''), (''gpqa_score'', JNumber 0.5)]"

definition item_scored_higher :: json where
  "item_scored_higher = JObject [(''name'', JString ''n''), (''gpqa_score'', JNumber 0.502)]"

definition item_unscored :: json where
  "item_unscored = JObject [(''name'', JString ''u''), (''organization'', JString ''OpenAI'')]"

definition item_long_context :: json where
  "item_long_context =
     JObject [(''name'', JString ''m''), (''gpqa_score'', JNumber 0.5),
              (''context_length'', JNumber 200000)]"

definition item_gpqa_out_of_range :: json where
  "item_gpqa_out_of_range =
     JObject [(''name'', JString ''m''), (''gpqa_score'', JNumber 5),
              (''average_score'', JNumber 0.5)]"

definition item_gpqa_zero :: json where
  "item_gpqa_zero = JObject [(''name'', JString ''m''), (''gpqa_score'', JNumber 0)]"

definition item_duplicate :: json where
  "item_duplicate = JObject [(''name'', JString ''free''), (''gpqa_score'', JNumber 0.9)]"

definition item_nameless :: json where
  "item_nameless = JObject [(''gpqa_score'', JNumber 0.9)]"

definition item_negative_price :: json where
  "item_negative_price =
     JObject [(''name'', JString ''m''), (''gpqa_score'', JNumber 0.5),
              (''input_price'', JNumber (- 0.9))]"

definition item_negative_price_high :: json where
  "item_negative_price_high =
     JObject [(''name'', JString ''n''), (''gpqa_score'', JNumber 0.9),
              (''input_price'', JNumber (- 0.9))]"

definition item_priced :: json where
  "item_priced =
     JObject [(''name'', JString ''p''), (''gpqa_score'', JNumber 0.9),
              (''input_price'', JNumber 9)]"

definition item_bad_modality :: json where
  "item_bad_modality =
     JObject [(''name'', JString ''x''), (''gpqa_score'', JNumber 0.9),
              (''modalities'', JArray [JNumber 1])]"

section \<open>The wording of the specification\<close>

text \<open>
  The signal attached at ingestion as the specification words it: a GPQA signal when
  \<open>gpqa_score\<close> parses to a value in [0,1], otherwise an average signal when
  \<open>average_score\<close> parses to a value in [0,1], otherwise none.
\<close>

definition claimed_signals :: "(string \<Rightarrow> real option) \<Rightarrow> json \<Rightarrow> Signal list" where
  "claimed_signals stod item =
     (let avg =
        (case TryGetDouble stod item ''average_score'' of
           Some v \<Rightarrow>
             (if 0 \<le> v \<and> v \<le> 1 then [\<lparr>source = ''Avg Score'', score = v, weight = 0.4\<rparr>]
              else [])
         | None \<Rightarrow> [])
      in case TryGetDouble stod item ''gpqa_score'' of
           Some v \<Rightarrow>
             (if 0 \<le> v \<and> v \<le> 1 then [\<lparr>source = ''ZeroEval GPQA'', score = v, weight = 0.5\<rparr>]
              else avg)
         | None \<Rightarrow> avg)"

text \<open>
  The Value score as the specification words it: \<open>S * 1000\<close> at price 0, the ratio at
  every other price.
\<close>

definition claimed_value :: "ModelEntity \<Rightarrow> real" where
  "claimed_value m =
     (if price_input_1m (metrics m) = 0 then final_score m * 1000
      else (final_score m)\<^sup>2 / (log 10 (price_input_1m (metrics m) + 1) + 0.1))"

text \<open>
  The Coding score as the specification words it, for a record whose context window is
  \<open>tokens\<close> tokens long.
\<close>

definition claimed_coding :: "ModelEntity \<Rightarrow> real \<Rightarrow> real" where
  "claimed_coding m tokens =
     (0.6 * coding_score (metrics m) + 0.2 * reasoning_score (metrics m)
      + 0.1 * clamp (tokens / 200000) 0 1 + 0.1 * (confidence_score m / 100)) * 100"

section \<open>The aggregate score\<close>


lemma aggregate_loop_sums:
  "aggregate_loop ss a b =
     (a + (\<Sum>s\<leftarrow>ss. score s * weight s), b + (\<Sum>s\<leftarrow>ss. weight s))"
  by (induction ss arbitrary: a b) (simp_all add: algebra_simps)

lemma weights_positive:
  "list_all valid_signal ss \<Longrightarrow> ss \<noteq> [] \<Longrightarrow> 0 < (\<Sum>s\<leftarrow>ss. weight s)"
proof (induction ss)
  case Nil
  then show ?case by simp
next
  case (Cons s ss)
  show ?case
  proof (cases "ss = []")
    case True
    with Cons.prems show ?thesis by (simp add: valid_signal_def)
  next
    case False
    with Cons have "0 < (\<Sum>s\<leftarrow>ss. weight s)" by simp
    moreover from Cons.prems have "0 < weight s" by (simp add: valid_signal_def)
    ultimately show ?thesis by simp
  qed
qed

lemma weighted_sum_positive:
  "list_all valid_signal ss \<Longrightarrow> ss \<noteq> [] \<Longrightarrow> 0 < (\<Sum>s\<leftarrow>ss. score s * weight s)"
proof (induction ss)
  case Nil
  then show ?case by simp
next
  case (Cons s ss)
  from Cons.prems have pos: "0 < score s * weight s" by (simp add: valid_signal_def)
  show ?case
  proof (cases "ss = []")
    case True
    with pos show ?thesis by simp
  next
    case False
    with Cons have "0 < (\<Sum>s\<leftarrow>ss. score s * weight s)" by simp
    with pos show ?thesis by simp
  qed
qed

lemma weighted_sum_le_weights:
  "list_all valid_signal ss \<Longrightarrow> (\<Sum>s\<leftarrow>ss. score s * weight s) \<le> (\<Sum>s\<leftarrow>ss. weight s)"
proof (induction ss)
  case Nil
  then show ?case by simp
next
  case (Cons s ss)
  from Cons.prems have "score s * weight s \<le> 1 * weight s"
    by (intro mult_right_mono) (simp_all add: valid_signal_def)
  with Cons show ?case by simp
qed


lemma final_score_ComputeAggregates:
  "final_score (ComputeAggregates m) =
     (if signals m \<noteq> []
      then (if (\<Sum>s\<leftarrow>signals m. weight s) > 0
            then (\<Sum>s\<leftarrow>signals m. score s * weight s) / (\<Sum>s\<leftarrow>signals m. weight s)
            else 0)
      else 0)"
  by (simp add: ComputeAggregates_def aggregate_loop_sums Let_def)

lemma signals_ComputeAggregates [simp]: "signals (ComputeAggregates m) = signals m"
  by (simp add: ComputeAggregates_def aggregate_loop_sums Let_def)

lemma aggregate_valid:
  assumes "list_all valid_signal (signals m)"
  shows "0 \<le> final_score (ComputeAggregates m)"
    and "final_score (ComputeAggregates m) \<le> 1"
    and "signals m \<noteq> [] \<Longrightarrow>
           final_score (ComputeAggregates m) =
             (\<Sum>s\<leftarrow>signals m. score s * weight s) / (\<Sum>s\<leftarrow>signals m. weight s)"
    and "final_score (ComputeAggregates m) = 0 \<longleftrightarrow> signals m = []"
proof -
  let ?w = "\<Sum>s\<leftarrow>signals m. weight s" and ?ws = "\<Sum>s\<leftarrow>signals m. score s * weight s"
  have empty: "signals m = [] \<Longrightarrow> final_score (ComputeAggregates m) = 0"
    by (simp add: final_score_ComputeAggregates)
  have nonempty: "final_score (ComputeAggregates m) = ?ws / ?w
      \<and> 0 < final_score (ComputeAggregates m) \<and> final_score (ComputeAggregates m) \<le> 1"
    if ne: "signals m \<noteq> []"
  proof -
    from assms ne have w: "0 < ?w" by (rule weights_positive)
    from assms ne have ws: "0 < ?ws" by (rule weighted_sum_positive)
    from assms have "?ws \<le> ?w" by (rule weighted_sum_le_weights)
    with w ws ne show ?thesis by (simp add: final_score_ComputeAggregates)
  qed
  show "0 \<le> final_score (ComputeAggregates m)"
    using empty nonempty by (cases "signals m = []") fastforce+
  show "final_score (ComputeAggregates m) \<le> 1"
    using empty nonempty by (cases "signals m = []") fastforce+
  show "signals m \<noteq> [] \<Longrightarrow> final_score (ComputeAggregates m) = ?ws / ?w"
    using nonempty by blast
  show "final_score (ComputeAggregates m) = 0 \<longleftrightarrow> signals m = []"
    using empty nonempty by (cases "signals m = []") fastforce+
qed



section \<open>Confidence\<close>

lemma inner_product_sq:
  "inner_product xs xs a (+) (\<lambda>x y. (x - mean) * (y - mean)) = a + (\<Sum>x\<leftarrow>xs. (x - mean)\<^sup>2)"
  by (induction xs arbitrary: a) (simp_all add: power2_eq_square algebra_simps)

lemma confidence_score_ComputeRankings [simp]:
  "confidence_score (ComputeRankings m) = confidence_score m"
  by (simp add: ComputeRankings_def Let_def)

lemma confidence_score_confidence_update:
  "confidence_score (confidence_update m) =
     (if signals m = [] then 10 else clamp (confidence_total m) 10 99)"
  unfolding confidence_update_def confidence_total_def recency_part_def versatile_part_def
    quality_part_def dispersion_def population_sd_def
    CONFIDENCE_BASE_def CONFIDENCE_SIGNAL_BONUS_def CONFIDENCE_RECENCY_BONUS_def
    CONFIDENCE_VERSATILE_BONUS_def CONFIDENCE_VARIANCE_PENALTY_def
  by (simp add: Let_def inner_product_sq split_def mult.commute)

lemma confidence_score_RecalculateConfidence:
  "confidence_score (RecalculateConfidence m) =
     (if signals m = [] then 10 else clamp (confidence_total m) 10 99)"
  by (simp add: RecalculateConfidence_def confidence_score_confidence_update)

lemma clamp_bounds: "lo \<le> hi \<Longrightarrow> lo \<le> clamp v lo hi \<and> clamp v lo hi \<le> hi"
  by (simp add: clamp_def)

lemma clamp_mono: "v \<le> w \<Longrightarrow> lo \<le> hi \<Longrightarrow> clamp v lo hi \<le> clamp w lo hi"
  by (simp add: clamp_def)

lemma clamp_above_floor: "lo < v \<Longrightarrow> lo < hi \<Longrightarrow> lo < clamp v lo hi"
  by (simp add: clamp_def)

lemma sum_sq_lt_length:
  assumes "list_all (\<lambda>x. 0 < x \<and> x \<le> 1) xs" and "0 < mean" and "mean \<le> 1" and "xs \<noteq> []"
  shows "(\<Sum>x\<leftarrow>xs. (x - mean)\<^sup>2) < real (length xs)"
  using assms(1,4)
proof (induction xs)
  case Nil
  then show ?case by simp
next
  case (Cons x xs)
  from Cons.prems(1) assms(2,3) have "\<bar>x - mean\<bar> < 1" by auto
  then have sq: "(x - mean)\<^sup>2 < 1" by (simp add: abs_square_less_1)
  show ?case
  proof (cases "xs = []")
    case True
    with sq show ?thesis by simp
  next
    case False
    with Cons have "(\<Sum>x\<leftarrow>xs. (x - mean)\<^sup>2) < real (length xs)" by simp
    with sq show ?thesis by simp
  qed
qed

lemma population_sd_lt_1:
  assumes "list_all (\<lambda>x. 0 < x \<and> x \<le> 1) xs" and "0 < mean" and "mean \<le> 1" and "xs \<noteq> []"
  shows "population_sd xs mean < 1"
proof -
  from assms have "(\<Sum>x\<leftarrow>xs. (x - mean)\<^sup>2) < real (length xs)" by (rule sum_sq_lt_length)
  moreover from assms(4) have "0 < real (length xs)" by simp
  ultimately have "(\<Sum>x\<leftarrow>xs. (x - mean)\<^sup>2) / real (length xs) < 1" by simp
  then show ?thesis by (simp add: population_sd_def)
qed

lemma population_sd_nonneg: "0 \<le> population_sd xs mean"
  by (auto simp: population_sd_def intro!: divide_nonneg_nonneg sum_list_nonneg)

lemma valid_scores:
  "list_all valid_signal ss \<Longrightarrow> list_all (\<lambda>x. 0 < x \<and> x \<le> 1) (map score ss)"
  by (induction ss) (simp_all add: valid_signal_def)

lemma recency_part_lower: "0 \<le> recency_part d"
  by (simp add: recency_part_def)

lemma versatile_part_lower: "0 \<le> versatile_part m"
  by (simp add: versatile_part_def)

lemma quality_part_lower: "- 10 \<le> quality_part s"
  by (simp add: quality_part_def)

lemma confidence_total_above_floor:
  assumes valid: "list_all valid_signal (signals m)" and ne: "signals m \<noteq> []"
    and fs: "0 < final_score m" "final_score m \<le> 1"
  shows "10 < confidence_total m"
proof -
  let ?n = "length (signals m)"
  have base: "50 + 10 * real ?n - 10 - 50 * dispersion m \<le> confidence_total m"
    using recency_part_lower [of "last_updated_days_ago (metrics m)"]
      versatile_part_lower [of m] quality_part_lower [of "final_score m"]
    by (simp add: confidence_total_def)
  show ?thesis
  proof (cases "?n > 1")
    case True
    from valid_scores [OF valid] fs ne
    have "population_sd (map score (signals m)) (final_score m) < 1"
      by (intro population_sd_lt_1) simp_all
    with True have "dispersion m < 1" by (simp add: dispersion_def)
    moreover from True have "2 \<le> real ?n" by simp
    ultimately show ?thesis using base by linarith
  next
    case False
    then have "dispersion m = 0" by (simp add: dispersion_def)
    with base show ?thesis by simp
  qed
qed

text \<open>
  C2. For every record and every outcome of the enrichment (modality set and metrics),
  the confidence computed after aggregation lies in [10,99]; when the retained signals
  satisfy the invariant of the data model it is 10 exactly when there is no signal.
\<close>

theorem confidence_range:
  "(let c = confidence_score
              (RecalculateConfidence ((ComputeAggregates m)\<lparr>modalities := md, metrics := mt\<rparr>))
    in 10 \<le> c \<and> c \<le> 99
     \<and> (list_all valid_signal (signals m) \<longrightarrow> (c = 10 \<longleftrightarrow> signals m = [])))"
proof -
  let ?m = "(ComputeAggregates m)\<lparr>modalities := md, metrics := mt\<rparr>"
  let ?c = "confidence_score (RecalculateConfidence ?m)"
  have sig: "signals ?m = signals m" and fin: "final_score ?m = final_score (ComputeAggregates m)"
    by simp_all
  have range: "10 \<le> ?c \<and> ?c \<le> 99"
    using clamp_bounds [of 10 99 "confidence_total ?m"]
    by (simp add: confidence_score_RecalculateConfidence)
  have iff: "?c = 10 \<longleftrightarrow> signals m = []" if valid: "list_all valid_signal (signals m)"
  proof (cases "signals m = []")
    case True
    then show ?thesis by (simp add: confidence_score_RecalculateConfidence)
  next
    case False
    from aggregate_valid(1,4) [OF valid] False
    have "0 < final_score (ComputeAggregates m)" by simp
    moreover from aggregate_valid(2) [OF valid]
    have "final_score (ComputeAggregates m) \<le> 1" .
    ultimately have "10 < confidence_total ?m"
      using valid False by (intro confidence_total_above_floor) simp_all
    then have "10 < clamp (confidence_total ?m) 10 99" by (intro clamp_above_floor) simp_all
    with False show ?thesis by (simp add: confidence_score_RecalculateConfidence)
  qed
  from range iff show ?thesis unfolding Let_def by blast
qed

theorem confidence_range_witness:
  "list_all valid_signal (signals (AddSignal (ModelEntity_new ''m'' ''o'') ''ZeroEval GPQA'' 0.5 0.5))
   \<and> signals (AddSignal (ModelEntity_new ''m'' ''o'') ''ZeroEval GPQA'' 0.5 0.5) \<noteq> []
   \<and> confidence_score (RecalculateConfidence
        ((ComputeAggregates (AddSignal (ModelEntity_new ''m'' ''o'') ''ZeroEval GPQA'' 0.5 0.5))
           \<lparr>modalities := {Text}, metrics := PerformanceMetrics_init\<rparr>)) \<noteq> 10
   \<and> 10 \<le> confidence_score (RecalculateConfidence
        ((ComputeAggregates (AddSignal (ModelEntity_new ''m'' ''o'') ''ZeroEval GPQA'' 0.5 0.5))
           \<lparr>modalities := {Text}, metrics := PerformanceMetrics_init\<rparr>))
   \<and> list_all valid_signal (signals (ModelEntity_new ''m'' ''o''))
   \<and> confidence_score (RecalculateConfidence
        ((ComputeAggregates (ModelEntity_new ''m'' ''o''))
           \<lparr>modalities := {Text}, metrics := PerformanceMetrics_init\<rparr>)) = 10"
  using confidence_range [where m = "AddSignal (ModelEntity_new ''m'' ''o'') ''ZeroEval GPQA'' 0.5 0.5"
      and md = "{Text}" and mt = PerformanceMetrics_init]
    confidence_range [where m = "ModelEntity_new ''m'' ''o''" and md = "{Text}"
      and mt = PerformanceMetrics_init]
  by (simp add: Let_def AddSignal_def ModelEntity_new_def clamp_def valid_signal_def)

text \<open>
  C7. Of two records with the same number of signals, the same aggregate, the same
  metrics and the same modality set, the one whose signal scores have the larger
  population standard deviation around the aggregate gets no larger a confidence.
\<close>

theorem dispersion_never_raises_confidence:
  assumes "length (signals a) = length (signals b)"
    and "final_score a = final_score b"
    and "metrics a = metrics b"
    and "modalities a = modalities b"
    and "population_sd (map score (signals b)) (final_score b)
           \<le> population_sd (map score (signals a)) (final_score a)"
  shows "confidence_score (RecalculateConfidence a) \<le> confidence_score (RecalculateConfidence b)"
proof -
  from assms(1,5) have "dispersion b \<le> dispersion a" by (simp add: dispersion_def)
  with assms(1-4) have "confidence_total a \<le> confidence_total b"
    by (simp add: confidence_total_def versatile_part_def)
  then have "clamp (confidence_total a) 10 99 \<le> clamp (confidence_total b) 10 99"
    by (intro clamp_mono) simp_all
  moreover from assms(1) have "signals a = [] \<longleftrightarrow> signals b = []" by (metis length_0_conv)
  ultimately show ?thesis by (simp add: confidence_score_RecalculateConfidence)
qed

lemma example_spread_fields:
  "map score (signals example_spread) = [0.9, 0.7]" "final_score example_spread = 0.8"
  "metrics example_spread = PerformanceMetrics_init\<lparr>recency_bonus := 3\<rparr>"
  "modalities example_spread = {}"
  by (simp_all add: example_spread_def ComputeAggregates_def AddSignal_def ModelEntity_new_def
      clamp_def recency_tier_def PerformanceMetrics_init_def)

lemma example_tight_fields:
  "map score (signals example_tight) = [0.8, 0.8]" "final_score example_tight = 0.8"
  "metrics example_tight = PerformanceMetrics_init\<lparr>recency_bonus := 3\<rparr>"
  "modalities example_tight = {}"
  by (simp_all add: example_tight_def ComputeAggregates_def AddSignal_def ModelEntity_new_def
      clamp_def recency_tier_def PerformanceMetrics_init_def)

theorem dispersion_never_raises_confidence_witness:
  "length (signals example_spread) = length (signals example_tight)
   \<and> final_score example_spread = final_score example_tight
   \<and> metrics example_spread = metrics example_tight
   \<and> modalities example_spread = modalities example_tight
   \<and> population_sd (map score (signals example_tight)) (final_score example_tight)
        \<le> population_sd (map score (signals example_spread)) (final_score example_spread)
   \<and> confidence_score (RecalculateConfidence example_spread)
        \<le> confidence_score (RecalculateConfidence example_tight)"
proof -
  have len: "length (signals example_spread) = length (signals example_tight)"
    using arg_cong [OF example_spread_fields(1), of length]
      arg_cong [OF example_tight_fields(1), of length] by simp
  have sd: "population_sd (map score (signals example_tight)) (final_score example_tight)
        \<le> population_sd (map score (signals example_spread)) (final_score example_spread)"
    by (simp add: example_spread_fields example_tight_fields population_sd_def)
  have eqs: "final_score example_spread = final_score example_tight"
    "metrics example_spread = metrics example_tight"
    "modalities example_spread = modalities example_tight"
    by (simp_all add: example_spread_fields example_tight_fields)
  from dispersion_never_raises_confidence [OF len eqs sd] len sd eqs show ?thesis by simp
qed

lemma ranks_ComputeRankings_value:
  "value_rank (ranks (ComputeRankings m)) =
     (if price_input_1m (metrics m) \<le> 0 then final_score m * 1000
      else (final_score m * final_score m) / (log 10 (price_input_1m (metrics m) + 1) + 0.1))"
  by (simp add: ComputeRankings_def Let_def)

lemma priced_value_lt_10:
  assumes "0 < p" and "0 \<le> s" and "s \<le> (1::real)"
  shows "(s * s) / (log 10 (p + 1) + 0.1) < 10"
proof -
  from assms(1) have "0 < log 10 (p + 1)" by simp
  then have d: "0.1 < log 10 (p + 1) + 0.1" by simp
  from assms(2,3) have "s * s \<le> 1 * 1" by (intro mult_mono) simp_all
  then have "s * s \<le> 1" by simp
  also from d have "1 < 10 * (log 10 (p + 1) + 0.1)" by simp
  finally show ?thesis using d by (simp add: pos_divide_less_eq)
qed

text \<open>
  C6. The Image score is \<open>(0.5 S + 0.3 creative + 0.1 speedNorm + 0.1 confidence/100) * 100\<close>
  and is 0 when Image is not among the modalities; the Video score is the same formula,
  multiplied by 0.3 when Video is not among the modalities.
\<close>

theorem image_video_view:
  "image_rank (ranks (ComputeRankings m)) =
     (if Image \<in> modalities m
      then (0.5 * final_score m + 0.3 * creative_score (metrics m)
            + 0.1 * clamp (tokens_per_sec (metrics m) / 150) 0 1
            + 0.1 * (confidence_score m / 100)) * 100
      else 0)
   \<and> video (ranks (ComputeRankings m)) =
     (if Video \<in> modalities m
      then (0.5 * final_score m + 0.3 * creative_score (metrics m)
            + 0.1 * clamp (tokens_per_sec (metrics m) / 150) 0 1
            + 0.1 * (confidence_score m / 100)) * 100
      else 0.3 * ((0.5 * final_score m + 0.3 * creative_score (metrics m)
            + 0.1 * clamp (tokens_per_sec (metrics m) / 150) 0 1
            + 0.1 * (confidence_score m / 100)) * 100))"
  by (simp add: ComputeRankings_def Let_def algebra_simps)

section \<open>Ingestion\<close>

lemma ComputeRankings_fields [simp]:
  "signals (ComputeRankings m) = signals m"
  "final_score (ComputeRankings m) = final_score m"
  "name (ComputeRankings m) = name m"
  "metrics (ComputeRankings m) = metrics m"
  "modalities (ComputeRankings m) = modalities m"
  "confidence_reason (ComputeRankings m) = confidence_reason m"
  by (simp_all add: ComputeRankings_def Let_def)

lemma confidence_update_fields [simp]:
  "signals (confidence_update m) = signals m"
  "final_score (confidence_update m) = final_score m"
  "name (confidence_update m) = name m"
  "metrics (confidence_update m) = metrics m"
  "modalities (confidence_update m) = modalities m"
  "ranks (confidence_update m) = ranks m"
  by (simp_all add: confidence_update_def Let_def split_def)

lemma RecalculateConfidence_fields [simp]:
  "signals (RecalculateConfidence m) = signals m"
  "final_score (RecalculateConfidence m) = final_score m"
  "name (RecalculateConfidence m) = name m"
  "metrics (RecalculateConfidence m) = metrics m"
  "modalities (RecalculateConfidence m) = modalities m"
  by (simp_all add: RecalculateConfidence_def)

lemma coding_ComputeRankings:
  "coding (ranks (ComputeRankings m)) =
     (coding_score (metrics m) * 0.6 + reasoning_score (metrics m) * 0.2
      + clamp (context_window (metrics m) / 200000) 0 1 * 0.1
      + confidence_score m / 100 * 0.1) * 100"
  by (simp add: ComputeRankings_def Let_def)

lemma overall_ComputeRankings:
  "overall (ranks (ComputeRankings m)) =
     (final_score m * OVERALL_CORE + coding_score (metrics m) * OVERALL_CODING
      + creative_score (metrics m) * OVERALL_CREATIVE
      + confidence_score m / 100 * OVERALL_CONFIDENCE
      + 1 / (1 + price_input_1m (metrics m) / 10) * OVERALL_PRICE) * 100"
  by (simp add: ComputeRankings_def Let_def)

lemma confidence_reason_RecalculateConfidence:
  "confidence_reason (RecalculateConfidence m) =
     (if signals m = [] then []
      else (if last_updated_days_ago (metrics m) \<le> 30 then ''Recent Verification, '' else [])
         @ (if (coding_score (metrics m) > 0.75 \<and> creative_score (metrics m) > 0.75)
               \<or> card (modalities m) > 1 then ''Multi-Category Verified, '' else [])
         @ (if length (signals m) \<ge> 3 then ''High Consensus'' else []))"
  by (simp add: RecalculateConfidence_def confidence_update_def Let_def split_def)

lemma no_consensus_without_three_signals:
  assumes "length (signals m) < 3"
  shows "\<not> str_find (confidence_reason (RecalculateConfidence m)) ''High Consensus''"
proof -
  from assms have
    "confidence_reason (RecalculateConfidence m) \<in>
       {[], ''Recent Verification, '', ''Multi-Category Verified, '',
        ''Recent Verification, Multi-Category Verified, ''}"
    by (simp add: confidence_reason_RecalculateConfidence)
  moreover have "\<not> str_find [] ''High Consensus''" by simp
  moreover have "\<not> str_find ''Recent Verification, '' ''High Consensus''" by simp
  moreover have "\<not> str_find ''Multi-Category Verified, '' ''High Consensus''" by simp
  moreover have "\<not> str_find ''Recent Verification, Multi-Category Verified, '' ''High Consensus''"
    by simp
  ultimately show ?thesis by auto
qed

lemma Enrich_metrics_recency_bonus:
  "recency_bonus (Enrich_metrics stod m ms item) = recency_bonus (metrics m)"
  by (simp add: Enrich_metrics_def Let_def)

lemma Enrich_metrics_context_window:
  "context_window (Enrich_metrics stod m ms item) =
     (case TryGetDouble stod item ''context_length'' of
        Some ctx_len_double \<Rightarrow> min 1 (ctx_len_double / 200000)
      | None \<Rightarrow>
          (if str_find (ToLower (name m)) ''128k'' \<or> str_find (ToLower (name m)) ''200k''
           then 0.8 else 0.5))"
  by (simp add: Enrich_metrics_def Let_def)

lemma Enrich_fields:
  assumes "Enrich stod m item = Inr m'"
  shows "signals m' = signals m" and "final_score m' = final_score m" and "name m' = name m"
    and "recency_bonus (metrics m') = recency_bonus (metrics m)"
  using assms
  by (auto simp: Enrich_def Enrich_metrics_recency_bonus split: sum.splits)

lemma signals_ingest_signals:
  "signals (ingest_signals stod (ModelEntity_new nm org) item) =
     (case TryGetDouble stod item ''gpqa_score'' of
        Some v \<Rightarrow>
          (if 0 < v \<and> v \<le> 1 then [\<lparr>source = ''ZeroEval GPQA'', score = v, weight = 0.5\<rparr>] else [])
      | None \<Rightarrow>
          (case TryGetDouble stod item ''average_score'' of
             Some v \<Rightarrow>
               (if 0 < v \<and> v \<le> 1 then [\<lparr>source = ''Avg Score'', score = v, weight = 0.4\<rparr>]
                else [])
           | None \<Rightarrow> []))"
  by (auto simp: ingest_signals_def AddSignal_def ModelEntity_new_def clamp_def
      split: option.splits)

lemma ingest_signals_valid:
  "list_all valid_signal (signals (ingest_signals stod (ModelEntity_new nm org) item))"
  "length (signals (ingest_signals stod (ModelEntity_new nm org) item)) \<le> 1"
  by (simp_all add: signals_ingest_signals valid_signal_def split: option.splits)

lemma ingest_signals_fields [simp]:
  "name (ingest_signals stod m item) = name m"
  "metrics (ingest_signals stod m item) = metrics m"
  by (simp_all add: ingest_signals_def AddSignal_def split: option.splits)

lemma ComputeAggregates_fields [simp]:
  "name (ComputeAggregates m) = name m"
  "recency_bonus (metrics (ComputeAggregates m)) = recency_tier (last_updated_days_ago (metrics m))"
  by (simp_all add: ComputeAggregates_def Let_def split: prod.splits)

lemma process_item_Inr:
  assumes "process_item stod nm item = Inr m"
  shows "\<exists>org e. item_organization item = Inr org
           \<and> Enrich stod (ComputeAggregates (ingest_signals stod (ModelEntity_new nm org) item)) item
               = Inr e
           \<and> m = RecalculateConfidence e"
  using assms by (auto simp: process_item_def Let_def split: sum.splits)

lemma process_item_facts:
  assumes "process_item stod nm item = Inr m"
  shows "name m = nm"
    and "length (signals m) \<le> 1"
    and "list_all valid_signal (signals m)"
    and "0 \<le> final_score m"
    and "final_score m = 0 \<longleftrightarrow> signals m = []"
    and "recency_bonus (metrics m) = 3"
    and "\<not> str_find (confidence_reason m) ''High Consensus''"
    and "signals m = [] \<Longrightarrow> confidence_score m = 10"
proof -
  from process_item_Inr [OF assms] obtain org e where
    e: "Enrich stod (ComputeAggregates (ingest_signals stod (ModelEntity_new nm org) item)) item
          = Inr e"
    and m: "m = RecalculateConfidence e"
    by blast
  let ?m1 = "ingest_signals stod (ModelEntity_new nm org) item"
  note ef = Enrich_fields [OF e]
  have sig: "signals m = signals ?m1" by (simp add: m ef)
  have fin: "final_score m = final_score (ComputeAggregates ?m1)" by (simp add: m ef)
  have valid: "list_all valid_signal (signals ?m1)" by (rule ingest_signals_valid)
  show "name m = nm" by (simp add: m ef ModelEntity_new_def)
  show len: "length (signals m) \<le> 1"
    using ingest_signals_valid(2) [of stod nm org item] by (simp add: sig)
  show "list_all valid_signal (signals m)" by (simp add: sig valid)
  show "0 \<le> final_score m" by (simp add: fin aggregate_valid(1) [OF valid])
  show "final_score m = 0 \<longleftrightarrow> signals m = []" by (simp add: fin sig aggregate_valid(4) [OF valid])
  show "recency_bonus (metrics m) = 3"
    by (simp add: m ef ModelEntity_new_def PerformanceMetrics_init_def recency_tier_def)
  from len have "length (signals e) < 3" by (simp add: m)
  then show "\<not> str_find (confidence_reason m) ''High Consensus''"
    unfolding m by (rule no_consensus_without_three_signals)
  show "confidence_score m = 10" if "signals m = []"
    using that by (simp add: m confidence_score_RecalculateConfidence)
qed

lemma process_item_context_window:
  assumes "process_item stod nm item = Inr m"
  shows "context_window (metrics m) \<le> 1"
    and "clamp (context_window (metrics m) / 200000) 0 1 \<le> 1 / 200000"
proof -
  from process_item_Inr [OF assms] obtain m1 e where
    e: "Enrich stod m1 item = Inr e" and m: "m = RecalculateConfidence e"
    by blast
  from e obtain ms where "metrics e = Enrich_metrics stod m1 ms item"
    by (auto simp: Enrich_def split: sum.splits)
  then show le: "context_window (metrics m) \<le> 1"
    by (simp add: m Enrich_metrics_context_window split: option.splits)
  then show "clamp (context_window (metrics m) / 200000) 0 1 \<le> 1 / 200000"
    by (simp add: clamp_def)
qed

lemma Run_item_cases:
  "(registry (Run_item stod st item) = registry st
      \<and> (\<forall>nm. json_find item ''name'' = Some (JString nm) \<longrightarrow> nm \<noteq> [] \<longrightarrow>
             \<not> list_ex (\<lambda>r. name r = nm) (registry st) \<longrightarrow>
             (\<forall>m. process_item stod nm item = Inr m \<longrightarrow> \<not> 0 < final_score m)))
   \<or> (\<exists>nm m. json_find item ''name'' = Some (JString nm) \<and> nm \<noteq> []
         \<and> \<not> list_ex (\<lambda>r. name r = nm) (registry st)
         \<and> process_item stod nm item = Inr m \<and> 0 < final_score m
         \<and> registry (Run_item stod st item) = registry st @ [m])"
  by (auto simp: Run_item_def split: option.splits json.splits sum.splits)

lemma Run_loop_registry_invariant:
  assumes step: "\<And>nm item m. process_item stod nm item = Inr m \<Longrightarrow> 0 < final_score m \<Longrightarrow> P m"
    and init: "list_all P (registry st)"
  shows "list_all P (registry (Run_loop stod st items))"
  using init
proof (induction items arbitrary: st)
  case Nil
  then show ?case by simp
next
  case (Cons item items)
  have "list_all P (registry (Run_item stod st item))"
    using Run_item_cases [of stod st item] Cons.prems step by auto
  then show ?case by (simp add: Cons.IH)
qed

lemma Run_loop_distinct_names:
  assumes "distinct (map name (registry st))"
  shows "distinct (map name (registry (Run_loop stod st items)))"
  using assms
proof (induction items arbitrary: st)
  case Nil
  then show ?case by simp
next
  case (Cons item items)
  have "distinct (map name (registry (Run_item stod st item)))"
    using Run_item_cases [of stod st item] Cons.prems
    by (auto simp: list_ex_iff process_item_facts(1))
  then show ?case by (simp add: Cons.IH)
qed

lemma Run_registry_invariant:
  assumes "\<And>nm item m. process_item stod nm item = Inr m \<Longrightarrow> 0 < final_score m \<Longrightarrow> P m"
  shows "list_all P (registry (Run stod data))"
  using Run_loop_registry_invariant [of stod P, OF assms]
  by (simp add: Run_def split: json.splits)

section \<open>Concrete runs\<close>

lemmas eval_defs =
  Run_def Run_item_def json_find_def process_item_def item_organization_def
  ingest_signals_def TryGetDouble_def ModelEntity_new_def AddSignal_def clamp_def
  ComputeAggregates_def Enrich_def Enrich_modalities_def Enrich_metrics_def ToLower_def
  tolower_def name_modalities_def Let_def PerformanceMetrics_init_def RankScores_init_def
  recency_tier_def

lemmas confidence_defs =
  RecalculateConfidence_def confidence_score_confidence_update confidence_total_def
  recency_part_def versatile_part_def quality_part_def dispersion_def

lemmas overall_defs =
  overall_ComputeRankings OVERALL_CORE_def OVERALL_CODING_def OVERALL_CREATIVE_def
  OVERALL_CONFIDENCE_def OVERALL_PRICE_def

text \<open>
  C4. The Coding score of the specification takes \<open>ctxNorm\<close> to be the context window
  in tokens over 200000, clamped to [0,1]. In the program \<open>Enrich\<close> already stores the
  normalised value in \<open>context_window\<close> and \<open>ComputeRankings\<close> divides it by 200000 again:
  an item with a context length of 200000 tokens gets the Coding score 41.50005, where
  the specification's formula gives 51.5.
\<close>

theorem coding_context_normalised_twice:
  "case process_item (\<lambda>_. None) ''m'' item_long_context of
     Inl e \<Rightarrow> False
   | Inr m \<Rightarrow>
       context_window (metrics m) = 1
       \<and> coding (ranks m) = 41.50005
       \<and> claimed_coding m 200000 = 51.5"
  by (simp add: eval_defs item_long_context_def confidence_defs claimed_coding_def
      coding_ComputeRankings)

text \<open>
  C1. The specification has one tie threshold, the same in every export path. On the
  run over two items with GPQA scores 0.5 and 0.502 the Overall scores are 53.5 and
  53.638: the CSV and legacy text comparators, with 0.005 on the 0-100 scale, order the
  second record first, while the dashboard comparator, with 0.5 on the same scale,
  treats the two as tied and leaves them in ingestion order. Both records carry
  \<open>recency_bonus\<close> 3, although the recency tier of their staleness is 1.
\<close>

theorem tie_threshold_diverges:
  "case registry (Run (\<lambda>_. None) (JArray [item_scored, item_scored_higher])) of
     [a, b] \<Rightarrow>
       overall (ranks a) = 53.5 \<and> overall (ranks b) = 53.638
       \<and> recency_bonus (metrics a) = 3 \<and> recency_bonus (metrics b) = 3
       \<and> recency_tier (last_updated_days_ago (metrics a)) = 1
       \<and> ExportCSV_performance_less b a \<and> \<not> ExportCSV_performance_less a b
       \<and> ExportLegacyText_less b a \<and> \<not> ExportLegacyText_less a b
       \<and> dashboard_compare overall a b = 0 \<and> dashboard_compare overall b a = 0
   | _ \<Rightarrow> False"
  by (simp add: eval_defs item_scored_def item_scored_higher_def confidence_defs overall_defs
      ExportCSV_performance_less_def ExportLegacyText_less_def tieBreakerSort_CSV_def
      tieBreakerSort_LegacyText_def dashboard_compare_def TIE_THRESHOLD_def)

text \<open>
  C8, amended. A record with no retained signal has aggregate 0 and confidence 10,
  whatever the enrichment; every record of the final registry has a positive aggregate
  and a signal; a record whose item passed the name checks and which was built and
  enriched without an exception is appended to the registry exactly when its aggregate
  is positive; and an item whose processing throws is counted as skipped and adds
  nothing to the registry.
\<close>

theorem zero_signal_never_persisted:
  "(signals m0 = [] \<longrightarrow>
      final_score (ComputeAggregates m0) = 0
      \<and> confidence_score
            (RecalculateConfidence ((ComputeAggregates m0)\<lparr>modalities := md, metrics := mt\<rparr>)) = 10)
   \<and> (\<forall>r \<in> set (registry (Run stod data)). 0 < final_score r \<and> signals r \<noteq> [])
   \<and> (json_find item ''name'' = Some (JString nm) \<and> nm \<noteq> []
        \<and> \<not> list_ex (\<lambda>r. name r = nm) (registry st)
        \<and> process_item stod nm item = Inr m \<longrightarrow>
          (signals m = [] \<longrightarrow> final_score m = 0 \<and> confidence_score m = 10)
          \<and> (m \<in> set (registry (Run_item stod st item)) \<longleftrightarrow> 0 < final_score m)
          \<and> registry (Run_item stod st item)
              = (if 0 < final_score m then registry st @ [m] else registry st))
   \<and> (json_find item ''name'' = Some (JString nm) \<and> nm \<noteq> []
        \<and> \<not> list_ex (\<lambda>r. name r = nm) (registry st)
        \<and> process_item stod nm item = Inl e \<longrightarrow>
          Run_item stod st item = st\<lparr>skipped := skipped st + 1\<rparr>)"
proof -
  have A: "final_score (ComputeAggregates m0) = 0
      \<and> confidence_score
            (RecalculateConfidence ((ComputeAggregates m0)\<lparr>modalities := md, metrics := mt\<rparr>)) = 10"
    if "signals m0 = []"
    using that by (simp add: final_score_ComputeAggregates confidence_score_RecalculateConfidence)
  have "list_all (\<lambda>r. 0 < final_score r \<and> signals r \<noteq> []) (registry (Run stod data))"
  proof (rule Run_registry_invariant)
    fix nm item m
    assume "process_item stod nm item = Inr m" and "0 < final_score m"
    with process_item_facts(5) [of stod nm item m]
    show "0 < final_score m \<and> signals m \<noteq> []" by auto
  qed
  then have B: "\<forall>r \<in> set (registry (Run stod data)). 0 < final_score r \<and> signals r \<noteq> []"
    by (simp add: list_all_iff)
  have C: "(signals m = [] \<longrightarrow> final_score m = 0 \<and> confidence_score m = 10)
          \<and> (m \<in> set (registry (Run_item stod st item)) \<longleftrightarrow> 0 < final_score m)
          \<and> registry (Run_item stod st item)
              = (if 0 < final_score m then registry st @ [m] else registry st)"
    if nm: "json_find item ''name'' = Some (JString nm)" "nm \<noteq> []"
      and fresh: "\<not> list_ex (\<lambda>r. name r = nm) (registry st)"
      and m: "process_item stod nm item = Inr m"
  proof -
    note facts = process_item_facts [OF m]
    have reg: "registry (Run_item stod st item)
              = (if 0 < final_score m then registry st @ [m] else registry st)"
      using nm fresh m by (simp add: Run_item_def)
    from fresh facts(1) have "m \<notin> set (registry st)" by (auto simp: list_ex_iff)
    with reg have "m \<in> set (registry (Run_item stod st item)) \<longleftrightarrow> 0 < final_score m"
      by simp
    with reg facts(5,8) show ?thesis by simp
  qed
  have D: "Run_item stod st item = st\<lparr>skipped := skipped st + 1\<rparr>"
    if "json_find item ''name'' = Some (JString nm)" "nm \<noteq> []"
      "\<not> list_ex (\<lambda>r. name r = nm) (registry st)" "process_item stod nm item = Inl e"
    using that by (simp add: Run_item_def)
  from A B C D show ?thesis by blast
qed

theorem zero_signal_never_persisted_witness:
  "signals (ModelEntity_new ''u'' ''o'') = []
   \<and> final_score (ComputeAggregates (ModelEntity_new ''u'' ''o'')) = 0
   \<and> confidence_score
        (RecalculateConfidence
          ((ComputeAggregates (ModelEntity_new ''u'' ''o''))
             \<lparr>modalities := {Text}, metrics := PerformanceMetrics_init\<rparr>)) = 10
   \<and> map name (registry (Run (\<lambda>_. None) (JArray [item_unscored, item_scored]))) = [''m'']
   \<and> 0 < final_score (hd (registry (Run (\<lambda>_. None) (JArray [item_unscored, item_scored]))))
   \<and> json_find item_unscored ''name'' = Some (JString ''u'')
   \<and> \<not> list_ex (\<lambda>r. name r = ''u'') (registry example_state)
   \<and> process_item (\<lambda>_. None) ''u'' item_unscored
        = Inr (projr (process_item (\<lambda>_. None) ''u'' item_unscored))
   \<and> signals (projr (process_item (\<lambda>_. None) ''u'' item_unscored)) = []
   \<and> confidence_score (projr (process_item (\<lambda>_. None) ''u'' item_unscored)) = 10
   \<and> registry (Run_item (\<lambda>_. None) example_state item_unscored) = registry example_state
   \<and> json_find item_bad_modality ''name'' = Some (JString ''x'')
   \<and> \<not> list_ex (\<lambda>r. name r = ''x'') (registry example_state)
   \<and> process_item (\<lambda>_. None) ''x'' item_bad_modality = Inl JsonException
   \<and> Run_item (\<lambda>_. None) example_state item_bad_modality
        = example_state\<lparr>skipped := 1\<rparr>"
proof -
  let ?S = "\<lambda>_::string. None :: real option"
  let ?data = "JArray [item_unscored, item_scored]"
  let ?m = "projr (process_item ?S ''u'' item_unscored)"
  have run: "map name (registry (Run ?S ?data)) = [''m'']"
    by (simp add: eval_defs item_unscored_def item_scored_def)
  then have "hd (registry (Run ?S ?data)) \<in> set (registry (Run ?S ?data))"
    by (cases "registry (Run ?S ?data)") simp_all
  moreover have "\<exists>e. process_item ?S ''u'' item_unscored = Inr e \<and> signals e = []"
    by (simp add: eval_defs item_unscored_def)
  then have m: "process_item ?S ''u'' item_unscored = Inr ?m" and sig: "signals ?m = []"
    by auto
  moreover have nm: "json_find item_unscored ''name'' = Some (JString ''u'')"
    by (simp add: json_find_def item_unscored_def)
  moreover have fresh: "\<not> list_ex (\<lambda>r. name r = ''u'') (registry example_state)"
    by (simp add: example_state_def example_free_def ModelEntity_new_def)
  moreover have "signals (ModelEntity_new ''u'' ''o'') = []"
    by (simp add: ModelEntity_new_def)
  moreover have "json_find item_bad_modality ''name'' = Some (JString ''x'')"
    by (simp add: json_find_def item_bad_modality_def)
  moreover have "\<not> list_ex (\<lambda>r. name r = ''x'') (registry example_state)"
    by (simp add: example_state_def example_free_def ModelEntity_new_def)
  moreover have "process_item ?S ''x'' item_bad_modality = Inl JsonException"
    by (simp add: eval_defs item_bad_modality_def)
  moreover have "skipped example_state = 0" by (simp add: example_state_def)
  ultimately show ?thesis
    using run zero_signal_never_persisted [where ?m0.0 = "ModelEntity_new ''u'' ''o''"
        and md = "{Text}" and mt = PerformanceMetrics_init and stod = ?S and data = ?data
        and item = item_unscored and nm = "''u''" and st = example_state and m = ?m]
      zero_signal_never_persisted [where stod = ?S and item = item_bad_modality
        and nm = "''x''" and st = example_state and e = JsonException]
    by simp
qed

text \<open>
  The equivalence as the specification words it fails on an item with a GPQA score of
  0.9 whose list of modalities holds a number: the aggregate of its record is 0.9, the
  enrichment throws, and the run ends with an empty registry and one skipped item.
\<close>

theorem persisted_iff_positive_counterexample:
  "0 < final_score
         (ComputeAggregates
           (ingest_signals (\<lambda>_. None) (ModelEntity_new ''x'' ''Unknown'') item_bad_modality))
   \<and> item_organization item_bad_modality = Inr ''Unknown''
   \<and> process_item (\<lambda>_. None) ''x'' item_bad_modality = Inl JsonException
   \<and> registry (Run (\<lambda>_. None) (JArray [item_bad_modality])) = []
   \<and> skipped (Run (\<lambda>_. None) (JArray [item_bad_modality])) = 1"
  by (simp add: eval_defs item_bad_modality_def final_score_ComputeAggregates)

text \<open>
  C9. An item whose name is that of a record of the registry leaves the whole state as
  it is, the counter of skipped records included; an item whose name is missing, not a
  string or empty changes the counter of skipped records by one and nothing else. The
  names of the final registry are distinct.
\<close>

theorem duplicate_names_skipped_silently:
  "(json_find item ''name'' = Some (JString nm) \<and> nm \<noteq> []
      \<and> list_ex (\<lambda>r. name r = nm) (registry st) \<longrightarrow> Run_item stod st item = st)
   \<and> ((\<forall>s. json_find item ''name'' \<noteq> Some (JString s)) \<or> json_find item ''name'' = Some (JString [])
        \<longrightarrow> Run_item stod st item = st\<lparr>skipped := skipped st + 1\<rparr>)
   \<and> distinct (map name (registry (Run stod data)))"
proof -
  have A: "Run_item stod st item = st"
    if "json_find item ''name'' = Some (JString nm)" "nm \<noteq> []"
      "list_ex (\<lambda>r. name r = nm) (registry st)"
    using that by (simp add: Run_item_def)
  have B: "Run_item stod st item = st\<lparr>skipped := skipped st + 1\<rparr>"
    if "(\<forall>s. json_find item ''name'' \<noteq> Some (JString s)) \<or> json_find item ''name'' = Some (JString [])"
    using that by (auto simp: Run_item_def split: option.splits json.splits)
  have C: "distinct (map name (registry (Run stod data)))"
    using Run_loop_distinct_names [of "\<lparr>registry = [], processed = 0, skipped = 0\<rparr>" stod]
    by (simp add: Run_def split: json.splits)
  from A B C show ?thesis by blast
qed

theorem duplicate_names_skipped_silently_witness:
  "json_find item_duplicate ''name'' = Some (JString ''free'')
   \<and> list_ex (\<lambda>r. name r = ''free'') (registry example_state)
   \<and> Run_item (\<lambda>_. None) example_state item_duplicate = example_state
   \<and> skipped (Run_item (\<lambda>_. None) example_state item_duplicate) = 0
   \<and> json_find item_nameless ''name'' = None
   \<and> skipped (Run_item (\<lambda>_. None) example_state item_nameless) = 1
   \<and> registry (Run_item (\<lambda>_. None) example_state item_nameless) = registry example_state
   \<and> map name (registry (Run (\<lambda>_. None) (JArray [item_scored, item_scored, item_nameless]))) = [''m'']
   \<and> skipped (Run (\<lambda>_. None) (JArray [item_scored, item_scored, item_nameless])) = 1
   \<and> distinct (map name (registry (Run (\<lambda>_. None) (JArray [item_scored, item_scored, item_nameless]))))"
proof -
  let ?S = "\<lambda>_::string. None :: real option"
  let ?data = "JArray [item_scored, item_scored, item_nameless]"
  have nm: "json_find item_duplicate ''name'' = Some (JString ''free'')"
    by (simp add: json_find_def item_duplicate_def)
  have dup: "list_ex (\<lambda>r. name r = ''free'') (registry example_state)"
    by (simp add: example_state_def example_free_def ModelEntity_new_def)
  have none: "json_find item_nameless ''name'' = None"
    by (simp add: json_find_def item_nameless_def)
  have sk: "skipped example_state = 0" by (simp add: example_state_def)
  have run: "map name (registry (Run ?S ?data)) = [''m'']" "skipped (Run ?S ?data) = 1"
    by (simp_all add: eval_defs item_scored_def item_nameless_def)
  from duplicate_names_skipped_silently [of item_duplicate "''free''" example_state ?S ?data]
    duplicate_names_skipped_silently [of item_nameless "''free''" example_state ?S ?data]
    nm dup none sk run
  show ?thesis by simp
qed

text \<open>
  C10, amended. Ingestion attaches a GPQA signal of weight 0.5 when \<open>gpqa_score\<close>
  parses to a value in (0,1], an average signal of weight 0.4 when \<open>gpqa_score\<close> does
  not parse and \<open>average_score\<close> parses to a value in (0,1], and at most one signal in
  every case; every record of the final registry has exactly one signal, a dispersion
  of 0 and a rationale without "High Consensus".
\<close>

theorem at_most_one_signal:
  "signals (ingest_signals stod (ModelEntity_new nm org) item) =
     (case TryGetDouble stod item ''gpqa_score'' of
        Some v \<Rightarrow>
          (if 0 < v \<and> v \<le> 1 then [\<lparr>source = ''ZeroEval GPQA'', score = v, weight = 0.5\<rparr>] else [])
      | None \<Rightarrow>
          (case TryGetDouble stod item ''average_score'' of
             Some v \<Rightarrow>
               (if 0 < v \<and> v \<le> 1 then [\<lparr>source = ''Avg Score'', score = v, weight = 0.4\<rparr>]
                else [])
           | None \<Rightarrow> []))
   \<and> length (signals (ingest_signals stod (ModelEntity_new nm org) item)) \<le> 1
   \<and> (\<forall>r \<in> set (registry (Run stod data)).
         length (signals r) = 1 \<and> dispersion r = 0
         \<and> \<not> str_find (confidence_reason r) ''High Consensus'')"
proof -
  have "list_all (\<lambda>r. length (signals r) = 1 \<and> dispersion r = 0
          \<and> \<not> str_find (confidence_reason r) ''High Consensus'') (registry (Run stod data))"
  proof (rule Run_registry_invariant)
    fix nm item m
    assume m: "process_item stod nm item = Inr m" and pos: "0 < final_score m"
    note facts = process_item_facts [OF m]
    from facts(5) pos have "signals m \<noteq> []" by auto
    with facts(2) have "length (signals m) = 1" by (cases "signals m") simp_all
    with facts(7) show "length (signals m) = 1 \<and> dispersion m = 0
          \<and> \<not> str_find (confidence_reason m) ''High Consensus''"
      by (simp add: dispersion_def)
  qed
  then show ?thesis
    using ingest_signals_valid(2) [of stod nm org item]
    by (simp add: list_all_iff signals_ingest_signals)
qed

theorem at_most_one_signal_witness:
  "signals (ingest_signals (\<lambda>_. None) (ModelEntity_new ''m'' ''Unknown'') item_scored)
     = [\<lparr>source = ''ZeroEval GPQA'', score = 0.5, weight = 0.5\<rparr>]
   \<and> map name (registry (Run (\<lambda>_. None) (JArray [item_scored]))) = [''m'']
   \<and> length (signals (hd (registry (Run (\<lambda>_. None) (JArray [item_scored]))))) = 1
   \<and> dispersion (hd (registry (Run (\<lambda>_. None) (JArray [item_scored])))) = 0
   \<and> \<not> str_find (confidence_reason (hd (registry (Run (\<lambda>_. None) (JArray [item_scored])))))
          ''High Consensus''"
proof -
  let ?S = "\<lambda>_::string. None :: real option"
  let ?data = "JArray [item_scored]"
  have run: "map name (registry (Run ?S ?data)) = [''m'']"
    by (simp add: eval_defs item_scored_def)
  then have "hd (registry (Run ?S ?data)) \<in> set (registry (Run ?S ?data))"
    by (cases "registry (Run ?S ?data)") simp_all
  moreover have "TryGetDouble ?S item_scored ''gpqa_score'' = Some 0.5"
    by (simp add: TryGetDouble_def json_find_def item_scored_def)
  ultimately show ?thesis
    using run at_most_one_signal [of ?S "''m''" "''Unknown''" item_scored ?data]
    by simp
qed

text \<open>
  The rule as the specification words it fails on an item whose \<open>gpqa_score\<close> is 5 and
  whose \<open>average_score\<close> is 0.5, and on an item whose \<open>gpqa_score\<close> is 0: the program
  attaches no signal to either.
\<close>

theorem claimed_signals_counterexample:
  "signals (ingest_signals (\<lambda>_. None) (ModelEntity_new ''m'' ''Unknown'') item_gpqa_out_of_range)
     \<noteq> claimed_signals (\<lambda>_. None) item_gpqa_out_of_range
   \<and> signals (ingest_signals (\<lambda>_. None) (ModelEntity_new ''m'' ''Unknown'') item_gpqa_zero)
     \<noteq> claimed_signals (\<lambda>_. None) item_gpqa_zero"
  by (simp add: ingest_signals_def claimed_signals_def TryGetDouble_def json_find_def AddSignal_def
      ModelEntity_new_def item_gpqa_out_of_range_def item_gpqa_zero_def)

section \<open>The Value view\<close>

lemma value_rank_RecalculateConfidence:
  "value_rank (ranks (RecalculateConfidence m)) =
     (if price_input_1m (metrics m) \<le> 0 then final_score m * 1000
      else (final_score m * final_score m) / (log 10 (price_input_1m (metrics m) + 1) + 0.1))"
  by (simp add: RecalculateConfidence_def ranks_ComputeRankings_value)

lemma process_item_value:
  assumes "process_item stod nm item = Inr m"
  shows "final_score m \<le> 1"
    and "value_rank (ranks m) =
      (if price_input_1m (metrics m) \<le> 0 then final_score m * 1000
       else (final_score m * final_score m) / (log 10 (price_input_1m (metrics m) + 1) + 0.1))"
proof -
  from process_item_Inr [OF assms] obtain org e where
    e: "Enrich stod (ComputeAggregates (ingest_signals stod (ModelEntity_new nm org) item)) item
          = Inr e"
    and m: "m = RecalculateConfidence e"
    by blast
  have "list_all valid_signal (signals (ingest_signals stod (ModelEntity_new nm org) item))"
    by (rule ingest_signals_valid)
  from aggregate_valid(2) [OF this] show "final_score m \<le> 1"
    by (simp add: m Enrich_fields(2) [OF e])
  show "value_rank (ranks m) =
      (if price_input_1m (metrics m) \<le> 0 then final_score m * 1000
       else (final_score m * final_score m) / (log 10 (price_input_1m (metrics m) + 1) + 0.1))"
    by (simp add: m value_rank_RecalculateConfidence)
qed

lemma log10_tenth: "log 10 (1 / 10) = - 1"
  by (simp add: log_divide)

text \<open>
  C5, amended. The Value score is \<open>S * 1000\<close> when the price is at most 0 and
  \<open>S\<^sup>2 / (log10 (price + 1) + 0.1)\<close> when it is positive; a record with a price of at
  most 0 and aggregate 0.6 has Value 600, above the Value of every record with a
  positive price and an aggregate in [0,1], and so above that of every ingested record
  with a positive price.
\<close>

theorem value_view:
  "value_rank (ranks (ComputeRankings m)) =
     (if price_input_1m (metrics m) \<le> 0 then final_score m * 1000
      else (final_score m)\<^sup>2 / (log 10 (price_input_1m (metrics m) + 1) + 0.1))
   \<and> (price_input_1m (metrics a) \<le> 0 \<and> final_score a = 0.6 \<longrightarrow>
        value_rank (ranks (ComputeRankings a)) = 600
        \<and> (0 < price_input_1m (metrics b) \<and> 0 \<le> final_score b \<and> final_score b \<le> 1 \<longrightarrow>
             value_rank (ranks (ComputeRankings b)) < value_rank (ranks (ComputeRankings a))))
   \<and> (process_item stod nm item = Inr r \<and> 0 < price_input_1m (metrics r) \<longrightarrow>
        value_rank (ranks r) < 600)"
proof -
  have A: "value_rank (ranks (ComputeRankings m)) =
     (if price_input_1m (metrics m) \<le> 0 then final_score m * 1000
      else (final_score m)\<^sup>2 / (log 10 (price_input_1m (metrics m) + 1) + 0.1))"
    by (simp add: ranks_ComputeRankings_value power2_eq_square)
  have B: "value_rank (ranks (ComputeRankings a)) = 600"
    if "price_input_1m (metrics a) \<le> 0" "final_score a = 0.6"
    using that by (simp add: ranks_ComputeRankings_value)
  have C: "value_rank (ranks (ComputeRankings b)) < 10"
    if "0 < price_input_1m (metrics b)" "0 \<le> final_score b" "final_score b \<le> 1"
    using that priced_value_lt_10 [of "price_input_1m (metrics b)" "final_score b"]
    by (simp add: ranks_ComputeRankings_value)
  have D: "value_rank (ranks r) < 600"
    if r: "process_item stod nm item = Inr r" and p: "0 < price_input_1m (metrics r)"
  proof -
    from process_item_facts(4) [OF r] process_item_value(1) [OF r] p
    have "(final_score r * final_score r) / (log 10 (price_input_1m (metrics r) + 1) + 0.1) < 10"
      by (intro priced_value_lt_10)
    with p show ?thesis by (simp add: process_item_value(2) [OF r])
  qed
  from A B C D show ?thesis by fastforce
qed

theorem value_view_witness:
  "price_input_1m (metrics example_free) \<le> 0 \<and> final_score example_free = 0.6
   \<and> value_rank (ranks (ComputeRankings example_free)) = 600
   \<and> 0 < price_input_1m (metrics example_priced)
   \<and> 0 \<le> final_score example_priced \<and> final_score example_priced \<le> 1
   \<and> value_rank (ranks (ComputeRankings example_priced))
        < value_rank (ranks (ComputeRankings example_free))
   \<and> process_item (\<lambda>_. None) ''p'' item_priced
        = Inr (projr (process_item (\<lambda>_. None) ''p'' item_priced))
   \<and> price_input_1m (metrics (projr (process_item (\<lambda>_. None) ''p'' item_priced))) = 9
   \<and> value_rank (ranks (projr (process_item (\<lambda>_. None) ''p'' item_priced))) < 600"
proof -
  let ?S = "\<lambda>_::string. None :: real option"
  let ?r = "projr (process_item ?S ''p'' item_priced)"
  have "\<exists>e. process_item ?S ''p'' item_priced = Inr e \<and> price_input_1m (metrics e) = 9"
    by (simp add: eval_defs item_priced_def)
  then have r: "process_item ?S ''p'' item_priced = Inr ?r"
    and p: "price_input_1m (metrics ?r) = 9"
    by auto
  from r p value_view [of example_free example_free example_priced ?S "''p''" item_priced ?r]
  show ?thesis
    by (simp add: example_free_def example_priced_def ModelEntity_new_def
        PerformanceMetrics_init_def)
qed

text \<open>
  The formula as the specification words it fails on an item with the price -0.9: the
  program keeps the negative price and takes the free branch, so a record with aggregate
  0.5 has Value 500 where the wording gives -5/18, and a record with aggregate 0.9 and
  the same price has Value 900, above the 600 of the free record with aggregate 0.6.
\<close>

theorem claimed_value_counterexample:
  "(case process_item (\<lambda>_. None) ''m'' item_negative_price of
      Inl e \<Rightarrow> False
    | Inr m \<Rightarrow>
        price_input_1m (metrics m) = - 0.9 \<and> final_score m = 0.5
        \<and> value_rank (ranks m) = 500 \<and> claimed_value m = - 5 / 18
        \<and> value_rank (ranks m) \<noteq> claimed_value m)
   \<and> (case process_item (\<lambda>_. None) ''n'' item_negative_price_high of
        Inl e \<Rightarrow> False
      | Inr m \<Rightarrow>
          price_input_1m (metrics m) \<noteq> 0 \<and> value_rank (ranks m) = 900
          \<and> 600 < value_rank (ranks m))"
  by (simp add: eval_defs item_negative_price_def item_negative_price_high_def
      value_rank_RecalculateConfidence claimed_value_def log10_tenth power2_eq_square)

end
